theory Spec2Isabelle
  imports Complex_Main
begin

section \<open>Python values\<close>

text \<open>
  A Python \<open>str\<close> is a sequence of Unicode code points and \<open>len\<close> counts code points,
  so a string is a list of code points. \<open>ascii\<close> embeds a literal.
\<close>

type_synonym pystr = "nat list"

definition ascii :: "string \<Rightarrow> pystr" where
  "ascii s = map of_char s"

text \<open>
  The values that \<open>json.loads\<close> and \<open>response.json()\<close> produce: \<open>None\<close>, \<open>int\<close>,
  \<open>str\<close>, \<open>list\<close> and \<open>dict\<close> (an association list, looked up from the left).
  Python \<open>float\<close> and \<open>bool\<close> payload values are not part of the embedding; the one
  \<open>float\<close> the program computes itself, \<open>value_dollars\<close>, is embedded as the exact
  rational quotient.
\<close>

datatype json =
    JNull
  | JInt int
  | JStr pystr
  | JList "json list"
  | JObj "(pystr \<times> json) list"

text \<open>
  The exceptions that the embedded code raises. \<open>OutsideModel\<close> is not one of
  Python's: it marks an input whose rendering is not embedded, the \<open>repr\<close> of a list
  or dict and the upper case of a string that is not ASCII.
\<close>

datatype error = TypeError | AttributeError | ValueError | OutsideModel

text \<open>Truth value of an object in a condition (\<open>if result\<close>, \<open>if not trades_data\<close>).\<close>

fun truthy :: "json \<Rightarrow> bool" where
  "truthy JNull = False"
| "truthy (JInt i) = (i \<noteq> 0)"
| "truthy (JStr s) = (s \<noteq> [])"
| "truthy (JList xs) = (xs \<noteq> [])"
| "truthy (JObj kvs) = (kvs \<noteq> [])"

text \<open>Lists and dicts cannot be members of a \<open>set\<close> or keys of a \<open>dict\<close>.\<close>

fun hashable :: "json \<Rightarrow> bool" where
  "hashable (JList xs) = False"
| "hashable (JObj kvs) = False"
| "hashable v = True"

text \<open>\<open>d.get(k, default)\<close> on a dict.\<close>

definition dict_get :: "(pystr \<times> json) list \<Rightarrow> pystr \<Rightarrow> json \<Rightarrow> json" where
  "dict_get d k dflt = (case map_of d k of None \<Rightarrow> dflt | Some v \<Rightarrow> v)"

text \<open>The operator \<open>*\<close>: product of integers, repetition of a sequence.\<close>

fun py_mul :: "json \<Rightarrow> json \<Rightarrow> error + json" where
  "py_mul (JInt a) (JInt b) = Inr (JInt (a * b))"
| "py_mul (JStr s) (JInt n) = Inr (JStr (concat (replicate (nat n) s)))"
| "py_mul (JInt n) (JStr s) = Inr (JStr (concat (replicate (nat n) s)))"
| "py_mul (JList xs) (JInt n) = Inr (JList (concat (replicate (nat n) xs)))"
| "py_mul (JInt n) (JList xs) = Inr (JList (concat (replicate (nat n) xs)))"
| "py_mul a b = Inl TypeError"

section \<open>Rendering numbers\<close>

text \<open>Decimal digits of a natural number, \<open>str(n)\<close>.\<close>

fun str_nat :: "nat \<Rightarrow> pystr" where
  "str_nat n = (if n < 10 then [48 + n] else str_nat (n div 10) @ [48 + n mod 10])"

declare str_nat.simps [simp del]

definition str_int :: "int \<Rightarrow> pystr" where
  "str_int i = (if i < 0 then 45 # str_nat (nat (- i)) else str_nat (nat i))"

text \<open>The format \<open>{n:,}\<close>: digits in groups of three, separated by commas.\<close>

fun group3 :: "nat \<Rightarrow> pystr" where
  "group3 n =
     (if n < 1000 then str_nat n
      else group3 (n div 1000) @
           [44, 48 + (n mod 1000) div 100, 48 + (n mod 100) div 10, 48 + n mod 10])"

declare group3.simps [simp del]

definition fmt_comma :: "int \<Rightarrow> pystr" where
  "fmt_comma i = (if i < 0 then 45 # group3 (nat (- i)) else group3 (nat i))"

text \<open>
  The format \<open>{x:.df}\<close> rounds to \<open>d\<close> decimals, ties to the even neighbour, and keeps
  the sign of a negative number that rounds to zero. It is embedded on the exact
  rational \<open>x\<close>.
\<close>

definition round_half_even :: "rat \<Rightarrow> int" where
  "round_half_even q =
     (let f = \<lfloor>q\<rfloor>; r = q - of_int f
      in if r < 1 / 2 then f
         else if 1 / 2 < r then f + 1
         else if even f then f else f + 1)"

definition zero_pad :: "nat \<Rightarrow> nat \<Rightarrow> pystr" where
  "zero_pad d m = replicate (d - length (str_nat m)) 48 @ str_nat m"

definition fmt_fixed :: "nat \<Rightarrow> rat \<Rightarrow> pystr" where
  "fmt_fixed d x =
     (let N = nat (round_half_even (\<bar>x\<bar> * 10 ^ d))
      in (if x < 0 then [45] else []) @ str_nat (N div 10 ^ d) @
         (if d = 0 then [] else 46 # zero_pad d (N mod 10 ^ d)))"

section \<open>trade\_monitor.py: Trade\<close>

record Trade =
  trade_id :: json
  ticker :: json
  side :: json
  count :: json
  yes_price :: json
  no_price :: json
  created_time :: json
  value_cents :: int
  value_dollars :: rat

text \<open>
  \<open>Trade.__init__\<close>. \<open>data.get\<close> needs a dict. The product \<open>count * price\<close> is an
  integer only for two integers; dividing anything else by 100 raises \<open>TypeError\<close>, as
  does a product that is not defined.
\<close>

definition Trade_init :: "json \<Rightarrow> error + Trade" where
  "Trade_init data =
     (case data of
        JObj d \<Rightarrow>
          (let tid = dict_get d (ascii ''trade_id'') (JStr []);
               tk = dict_get d (ascii ''ticker'') (JStr []);
               sd = dict_get d (ascii ''side'') (JStr []);
               cnt = dict_get d (ascii ''count'') (JInt 0);
               yp = dict_get d (ascii ''yes_price'') (JInt 0);
               np = dict_get d (ascii ''no_price'') (JInt 0);
               ct = dict_get d (ascii ''created_time'') (JStr []);
               vc = (if sd = JStr (ascii ''yes'') then py_mul cnt yp else py_mul cnt np)
           in case vc of
                Inl e \<Rightarrow> Inl e
              | Inr (JInt v) \<Rightarrow>
                  Inr \<lparr>trade_id = tid, ticker = tk, side = sd, count = cnt, yes_price = yp,
                       no_price = np, created_time = ct, value_cents = v,
                       value_dollars = of_int v / 100\<rparr>
              | Inr _ \<Rightarrow> Inl TypeError)
      | _ \<Rightarrow> Inl AttributeError)"

definition is_whale :: "Trade \<Rightarrow> int \<Rightarrow> bool" where
  "is_whale t threshold_dollars = (of_int threshold_dollars \<le> value_dollars t)"

section \<open>kalshi\_client.py\<close>

text \<open>
  What the HTTP layer does with one request: the transport raises, or a response
  arrives with a status code and a body, \<open>Some j\<close> when the body parses as JSON.
\<close>

datatype http_outcome = TransportError | Response nat "json option"

text \<open>
  \<open>_make_request\<close>: the parsed body on status 200, \<open>None\<close> otherwise; every exception
  of the request and of \<open>response.json()\<close> is caught and gives \<open>None\<close>.
\<close>

fun make_request :: "http_outcome \<Rightarrow> json" where
  "make_request TransportError = JNull"
| "make_request (Response status body) =
     (if status = 200 then (case body of Some j \<Rightarrow> j | None \<Rightarrow> JNull) else JNull)"

text \<open>\<open>result.get(key, default)\<close>; an object that is not a dict has no \<open>get\<close>.\<close>

definition result_get :: "json \<Rightarrow> pystr \<Rightarrow> json \<Rightarrow> error + json" where
  "result_get result k dflt =
     (case result of JObj d \<Rightarrow> Inr (dict_get d k dflt) | _ \<Rightarrow> Inl AttributeError)"

definition get_markets :: "http_outcome \<Rightarrow> error + json" where
  "get_markets out =
     (let result = make_request out
      in if truthy result then result_get result (ascii ''markets'') (JList []) else Inr JNull)"

definition get_market :: "http_outcome \<Rightarrow> error + json" where
  "get_market out =
     (let result = make_request out
      in if truthy result then result_get result (ascii ''market'') JNull else Inr JNull)"

definition get_trades :: "http_outcome \<Rightarrow> error + json" where
  "get_trades out =
     (let result = make_request out
      in if truthy result then result_get result (ascii ''trades'') (JList []) else Inr JNull)"

definition get_orderbook :: "http_outcome \<Rightarrow> error + json" where
  "get_orderbook out =
     (let result = make_request out in Inr (if truthy result then result else JNull))"

section \<open>trade\_monitor.py: TradeMonitor\<close>

text \<open>
  The exchange answers the \<open>n\<close>-th request of a run with \<open>http n\<close>; \<open>requests\<close> counts
  the requests issued so far.
\<close>

record TradeMonitor =
  threshold_dollars :: int
  seen_trade_ids :: "json set"
  market_cache :: "json \<rightharpoonup> json"
  requests :: nat

definition TradeMonitor_init :: "int \<Rightarrow> TradeMonitor" where
  "TradeMonitor_init threshold =
     \<lparr>threshold_dollars = threshold, seen_trade_ids = {}, market_cache = Map.empty,
      requests = 0\<rparr>"

text \<open>
  \<open>get_market_details\<close>, the same code in \<open>TradeMonitor\<close> and in the streaming bot:
  it works on the market cache and the request counter.
\<close>

definition get_market_details ::
  "(nat \<Rightarrow> http_outcome) \<Rightarrow> json \<Rightarrow> (json \<rightharpoonup> json) \<times> nat
     \<Rightarrow> (error + json) \<times> (json \<rightharpoonup> json) \<times> nat" where
  "get_market_details http tk st =
     (case st of (cache, n) \<Rightarrow>
        if \<not> hashable tk then (Inl TypeError, cache, n)
        else (case cache tk of
                Some v \<Rightarrow> (Inr v, cache, n)
              | None \<Rightarrow>
                  (case get_market (http n) of
                     Inl e \<Rightarrow> (Inl e, cache, Suc n)
                   | Inr market \<Rightarrow>
                       (let cache' = (if truthy market then cache(tk \<mapsto> market) else cache)
                        in (Inr (case cache' tk of None \<Rightarrow> JNull | Some v \<Rightarrow> v),
                            cache', Suc n)))))"

text \<open>
  Iterating over \<open>trades_data\<close> and keeping the records that \<open>Trade\<close> accepts. A dict
  yields its keys and a string its characters, which are strings and are all rejected.
\<close>

definition parse_trades :: "json list \<Rightarrow> Trade list" where
  "parse_trades xs =
     List.map_filter (\<lambda>d. case Trade_init d of Inl e \<Rightarrow> None | Inr t \<Rightarrow> Some t) xs"

definition fetch_recent_trades ::
  "(nat \<Rightarrow> http_outcome) \<Rightarrow> TradeMonitor \<Rightarrow> (error + Trade list) \<times> TradeMonitor" where
  "fetch_recent_trades http m =
     (let m' = m\<lparr>requests := Suc (requests m)\<rparr>
      in case get_trades (http (requests m)) of
           Inl e \<Rightarrow> (Inl e, m')
         | Inr trades_data \<Rightarrow>
             if \<not> truthy trades_data then (Inr [], m')
             else (case trades_data of
                     JList xs \<Rightarrow> (Inr (parse_trades xs), m')
                   | JObj kvs \<Rightarrow> (Inr (parse_trades (map (JStr \<circ> fst) kvs)), m')
                   | JStr s \<Rightarrow> (Inr (parse_trades (map (\<lambda>c. JStr [c]) s)), m')
                   | _ \<Rightarrow> (Inl TypeError, m')))"

text \<open>The loop over the fetched trades in \<open>find_new_whale_trades\<close>.\<close>

fun whale_loop ::
  "(nat \<Rightarrow> http_outcome) \<Rightarrow> Trade list \<Rightarrow> (Trade \<times> json) list \<Rightarrow> TradeMonitor
     \<Rightarrow> (error + (Trade \<times> json) list) \<times> TradeMonitor" where
  "whale_loop http [] new_whales m = (Inr new_whales, m)"
| "whale_loop http (trade # trades) new_whales m =
     (if \<not> hashable (trade_id trade) then (Inl TypeError, m)
      else if trade_id trade \<in> seen_trade_ids m then whale_loop http trades new_whales m
      else
        (let m1 = m\<lparr>seen_trade_ids := insert (trade_id trade) (seen_trade_ids m)\<rparr>
         in if is_whale trade (threshold_dollars m1) then
              (case get_market_details http (ticker trade) (market_cache m1, requests m1) of
                 (Inl e, cache, n) \<Rightarrow> (Inl e, m1\<lparr>market_cache := cache, requests := n\<rparr>)
               | (Inr market_details, cache, n) \<Rightarrow>
                   whale_loop http trades
                     (if truthy market_details then new_whales @ [(trade, market_details)]
                      else new_whales)
                     (m1\<lparr>market_cache := cache, requests := n\<rparr>))
            else whale_loop http trades new_whales m1))"

text \<open>
  \<open>set(list(seen)[-5000:])\<close> when \<open>len(seen) > 10000\<close>. The order in which a set
  is listed is the interpreter's: \<open>order\<close> stands for it.
\<close>

definition compact_seen :: "(json set \<Rightarrow> json list) \<Rightarrow> json set \<Rightarrow> json set" where
  "compact_seen order S =
     (if 10000 < card S then (let l = order S in set (drop (length l - 5000) l)) else S)"

definition find_new_whale_trades ::
  "(json set \<Rightarrow> json list) \<Rightarrow> (nat \<Rightarrow> http_outcome) \<Rightarrow> TradeMonitor
     \<Rightarrow> (error + (Trade \<times> json) list) \<times> TradeMonitor" where
  "find_new_whale_trades order http m =
     (case fetch_recent_trades http m of
        (Inl e, m1) \<Rightarrow> (Inl e, m1)
      | (Inr trades, m1) \<Rightarrow>
          (case whale_loop http trades [] m1 of
             (Inl e, m2) \<Rightarrow> (Inl e, m2)
           | (Inr new_whales, m2) \<Rightarrow>
               (Inr new_whales,
                m2\<lparr>seen_trade_ids := compact_seen order (seen_trade_ids m2)\<rparr>)))"

section \<open>websocket\_client.py\<close>

text \<open>\<open>websocket\<close> is \<open>True\<close> when a connection object is held, \<open>False\<close> for \<open>None\<close>;
  \<open>slept\<close> lists the arguments of the calls of \<open>asyncio.sleep\<close>, latest last.\<close>

record KalshiWebSocketClient =
  websocket :: bool
  running :: bool
  reconnect_delay :: int
  max_reconnect_delay :: int
  slept :: "int list"

definition KalshiWebSocketClient_init :: KalshiWebSocketClient where
  "KalshiWebSocketClient_init =
     \<lparr>websocket = False, running = False, reconnect_delay = 1, max_reconnect_delay = 60,
      slept = []\<rparr>"

text \<open>
  \<open>connect\<close>: signing or opening the connection raises, and \<open>False\<close> is returned with
  the state as it was; or the connection opens, the subscription is sent (its own
  failure is caught in \<open>subscribe_to_trades\<close>), and the delay is reset.
\<close>

datatype connect_outcome = ConnectFails | ConnectOpens

fun connect :: "connect_outcome \<Rightarrow> KalshiWebSocketClient \<Rightarrow> bool \<times> KalshiWebSocketClient" where
  "connect ConnectFails c = (False, c)"
| "connect ConnectOpens c = (True, c\<lparr>websocket := True, reconnect_delay := 1\<rparr>)"

text \<open>
  What the receive half of one iteration of \<open>listen\<close> meets: a frame that is handled,
  a timeout followed by a ping that succeeds or fails, a closed connection, or any
  other exception (a frame that is not JSON, a handler that raises).
\<close>

datatype recv_outcome = Handled | Timeout bool | ConnectionClosed | OtherException

fun receive :: "recv_outcome \<Rightarrow> KalshiWebSocketClient \<Rightarrow> KalshiWebSocketClient" where
  "receive Handled c = c"
| "receive (Timeout ping_ok) c = (if ping_ok then c else c\<lparr>websocket := False\<rparr>)"
| "receive ConnectionClosed c = c\<lparr>websocket := False\<rparr>"
| "receive OtherException c = c\<lparr>slept := slept c @ [1]\<rparr>"

text \<open>One iteration of the \<open>while self.running\<close> loop of \<open>listen\<close>.\<close>

definition listen_step ::
  "connect_outcome \<times> recv_outcome \<Rightarrow> KalshiWebSocketClient \<Rightarrow> KalshiWebSocketClient" where
  "listen_step ev c =
     (if \<not> running c then c
      else if \<not> websocket c then
        (case connect (fst ev) c of
           (False, c') \<Rightarrow>
             c'\<lparr>slept := slept c' @ [reconnect_delay c'],
                reconnect_delay := min (reconnect_delay c' * 2) (max_reconnect_delay c')\<rparr>
         | (True, c') \<Rightarrow> receive (snd ev) c')
      else receive (snd ev) c)"

text \<open>\<open>listen\<close> along a finite run of the loop, one pair of outcomes per iteration.\<close>

definition listen ::
  "(connect_outcome \<times> recv_outcome) list \<Rightarrow> KalshiWebSocketClient \<Rightarrow> KalshiWebSocketClient" where
  "listen evs c = fold listen_step evs (c\<lparr>running := True\<rparr>)"

text \<open>
  \<open>handle_message\<close> for a parsed frame: the dict handed to the trade callback, if any.
  \<open>ts_iso\<close> stands for \<open>_timestamp_to_iso\<close>, which depends on the local time zone.
\<close>

definition normalize_trade :: "(json \<Rightarrow> error + json) \<Rightarrow> json \<Rightarrow> error + json" where
  "normalize_trade ts_iso trade_data =
     (case trade_data of
        JObj d \<Rightarrow>
          (case ts_iso (dict_get d (ascii ''ts'') (JInt 0)) of
             Inl e \<Rightarrow> Inl e
           | Inr created \<Rightarrow>
               Inr (JObj
                 [(ascii ''trade_id'', dict_get d (ascii ''trade_id'') JNull),
                  (ascii ''ticker'', dict_get d (ascii ''market_ticker'') JNull),
                  (ascii ''taker_side'', dict_get d (ascii ''taker_side'') JNull),
                  (ascii ''count'', dict_get d (ascii ''count'') JNull),
                  (ascii ''yes_price'', dict_get d (ascii ''yes_price'') JNull),
                  (ascii ''no_price'', dict_get d (ascii ''no_price'') JNull),
                  (ascii ''created_time'', created)]))
      | _ \<Rightarrow> Inl AttributeError)"

definition handle_message :: "(json \<Rightarrow> error + json) \<Rightarrow> json \<Rightarrow> error + json option" where
  "handle_message ts_iso data =
     (case data of
        JObj d \<Rightarrow>
          if dict_get d (ascii ''type'') JNull = JStr (ascii ''trade'') then
            (case normalize_trade ts_iso (dict_get d (ascii ''msg'') (JObj [])) of
               Inl e \<Rightarrow> Inl e
             | Inr normalized_trade \<Rightarrow> Inr (Some normalized_trade))
          else if dict_get d (ascii ''type'') JNull = JStr (ascii ''subscribed'') then
            (case dict_get d (ascii ''msg'') (JObj []) of
               JObj m \<Rightarrow> Inr None
             | _ \<Rightarrow> Inl AttributeError)
          else Inr None
      | _ \<Rightarrow> Inl AttributeError)"

section \<open>x\_client.py\<close>

text \<open>The text that \<open>post_tweet\<close> hands to \<open>create_tweet\<close>.\<close>

definition post_tweet_text :: "pystr \<Rightarrow> pystr" where
  "post_tweet_text text =
     (if 280 < length text then take 277 text @ ascii ''...'' else text)"

text \<open>
  \<open>post_tweet\<close>: the transmitted text and the returned id; the library call raises,
  answers without data, or answers with an id.
\<close>

datatype tweepy_outcome = TweepyRaises | NoData | TweetId json

definition post_tweet :: "tweepy_outcome \<Rightarrow> pystr \<Rightarrow> pystr \<times> json" where
  "post_tweet out text =
     (post_tweet_text text, case out of TweetId i \<Rightarrow> i | _ \<Rightarrow> JNull)"

section \<open>tweet\_formatter.py\<close>

definition bind_err :: "error + 'a \<Rightarrow> ('a \<Rightarrow> error + 'b) \<Rightarrow> error + 'b" where
  "bind_err r f = (case r of Inl e \<Rightarrow> Inl e | Inr x \<Rightarrow> f x)"

text \<open>
  An interpolated value \<open>{v}\<close> in an f-string. The \<open>repr\<close> of lists and dicts is not
  embedded.
\<close>

fun py_str :: "json \<Rightarrow> error + pystr" where
  "py_str JNull = Inr (ascii ''None'')"
| "py_str (JInt i) = Inr (str_int i)"
| "py_str (JStr s) = Inr s"
| "py_str v = Inl OutsideModel"

text \<open>
  \<open>s.upper()\<close>, embedded for ASCII strings; only a \<open>str\<close> has the method.
\<close>

fun py_upper :: "json \<Rightarrow> error + pystr" where
  "py_upper (JStr s) =
     (if \<forall>c \<in> set s. c < 128
      then Inr (map (\<lambda>c. if 97 \<le> c \<and> c \<le> 122 then c - 32 else c) s)
      else Inl OutsideModel)"
| "py_upper v = Inl AttributeError"

text \<open>The format \<open>{v:,}\<close> of a \<open>count\<close>: defined for numbers only.\<close>

fun fmt_count :: "json \<Rightarrow> error + pystr" where
  "fmt_count (JInt i) = Inr (fmt_comma i)"
| "fmt_count (JStr s) = Inl ValueError"
| "fmt_count v = Inl TypeError"

text \<open>\<open>sep.join(parts)\<close>.\<close>

fun join :: "pystr \<Rightarrow> pystr list \<Rightarrow> pystr" where
  "join sep [] = []"
| "join sep [x] = x"
| "join sep (x # y # ys) = x @ sep @ join sep (y # ys)"

text \<open>
  \<open>s.replace(old, new)\<close>: every occurrence of \<open>old\<close>, from the left, without
  overlaps; for an empty \<open>old\<close>, \<open>new\<close> is put around every character.
\<close>

function replace_from :: "pystr \<Rightarrow> pystr \<Rightarrow> pystr \<Rightarrow> pystr" where
  "replace_from old new [] = []"
| "replace_from old new (c # cs) =
     (if old \<noteq> [] \<and> take (length old) (c # cs) = old
      then new @ replace_from old new (drop (length old) (c # cs))
      else c # replace_from old new cs)"
  by pat_completeness auto
termination
  by (relation "measure (\<lambda>(old, new, s). length s)") (auto simp: neq_Nil_conv)

definition py_replace :: "pystr \<Rightarrow> pystr \<Rightarrow> pystr \<Rightarrow> pystr" where
  "py_replace s old new =
     (if old = [] then new @ concat (map (\<lambda>c. c # new) s) else replace_from old new s)"

definition format_currency :: "rat \<Rightarrow> pystr" where
  "format_currency amount =
     (if 1000000 \<le> amount then ascii ''$'' @ fmt_fixed 1 (amount / 1000000) @ ascii ''M''
      else if 1000 \<le> amount then ascii ''$'' @ fmt_fixed 0 (amount / 1000) @ ascii ''K''
      else ascii ''$'' @ fmt_fixed 0 amount)"

definition get_market_url :: "pystr \<Rightarrow> pystr" where
  "get_market_url tk = ascii ''https://kalshi.com/?search='' @ tk"

text \<open>
  The two renderings of \<open>format_whale_tweet\<close>. The whale is the code point 128011, the
  bar chart 128202, the cent sign 162.
\<close>

definition full_tweet ::
  "pystr \<Rightarrow> pystr \<Rightarrow> pystr \<Rightarrow> pystr \<Rightarrow> pystr \<Rightarrow> pystr \<Rightarrow> pystr \<Rightarrow> pystr" where
  "full_tweet value title contracts sd price pct tk =
     join [10]
       [128011 # ascii '' Whale Alert!'',
        [],
        value @ ascii '' trade on '' @ title,
        [],
        128202 # ascii '' '' @ contracts @ ascii '' '' @ sd @ ascii '' contracts @ '' @ price
          @ [162] @ ascii '' ('' @ pct @ ascii ''%)'',
        [],
        ascii ''@Kalshi @KalshiEco'',
        [],
        get_market_url tk]"

definition compact_tweet :: "pystr \<Rightarrow> pystr \<Rightarrow> pystr \<Rightarrow> pystr \<Rightarrow> pystr \<Rightarrow> pystr" where
  "compact_tweet value contracts sd price tk =
     join [10]
       [128011 # ascii '' '' @ value @ ascii '' whale trade'',
        contracts @ ascii '' '' @ sd @ ascii '' contracts @ '' @ price @ [162],
        ascii ''@Kalshi @KalshiEco'',
        get_market_url tk]"

definition format_whale_tweet :: "Trade \<Rightarrow> json \<Rightarrow> error + pystr" where
  "format_whale_tweet trade market =
     bind_err (result_get market (ascii ''title'') (JStr (ascii ''Unknown Market''))) (\<lambda>title.
     bind_err (py_upper (side trade)) (\<lambda>sd.
     let value = format_currency (value_dollars trade) in
     bind_err (fmt_count (count trade)) (\<lambda>contracts.
     let price_cents = (if side trade = JStr (ascii ''yes'') then yes_price trade
                        else no_price trade) in
     (case price_cents of
        JInt p \<Rightarrow>
          bind_err (py_str title) (\<lambda>title_s.
          bind_err (py_str (ticker trade)) (\<lambda>tk.
          let tweet = full_tweet value title_s contracts sd (str_int p)
                        (fmt_fixed 0 (of_int p / 100)) tk in
          if 280 < length tweet then
            (case title of
               JStr t \<Rightarrow>
                 (let max_title_len = int (length t) - (int (length tweet) - 280) - 3 in
                  if 20 < max_title_len
                  then Inr (py_replace tweet t (take (nat max_title_len) t @ ascii ''...''))
                  else Inr (compact_tweet value contracts sd (str_int p) tk))
             | _ \<Rightarrow> Inl TypeError)
          else Inr tweet))
      | _ \<Rightarrow> Inl TypeError))))"

section \<open>bot\_websocket.py\<close>

text \<open>
  What the streaming bot lets out: a line of log per print site, and the text of every
  tweet handed to the X client.
\<close>

datatype event =
    TradeLogged
  | WhaleDetected
  | MarketMissing
  | TweetSent pystr
  | PostFailed error
  | HandlerError error

record ValshiXWebSocket =
  ws_seen_trade_ids :: "json set"
  ws_market_cache :: "json \<rightharpoonup> json"
  ws_requests :: nat
  events :: "event list"

definition ValshiXWebSocket_init :: ValshiXWebSocket where
  "ValshiXWebSocket_init =
     \<lparr>ws_seen_trade_ids = {}, ws_market_cache = Map.empty, ws_requests = 0, events = []\<rparr>"

definition emit :: "event \<Rightarrow> ValshiXWebSocket \<Rightarrow> ValshiXWebSocket" where
  "emit ev b = b\<lparr>events := events b @ [ev]\<rparr>"

text \<open>\<open>post_whale_trade\<close> catches every exception of the formatter and of the client.\<close>

definition post_whale_trade :: "Trade \<Rightarrow> json \<Rightarrow> ValshiXWebSocket \<Rightarrow> ValshiXWebSocket" where
  "post_whale_trade trade market b =
     (case format_whale_tweet trade market of
        Inl e \<Rightarrow> emit (PostFailed e) b
      | Inr tweet_text \<Rightarrow> emit (TweetSent (post_tweet_text tweet_text)) b)"

text \<open>
  The body of the \<open>try\<close> in \<open>handle_trade\<close>: \<open>Inl e\<close> when it raises, with the state
  reached by then. \<open>whale_threshold\<close> is \<open>Config.WHALE_THRESHOLD_DOLLARS\<close>.
\<close>

definition handle_trade_try ::
  "(json set \<Rightarrow> json list) \<Rightarrow> (nat \<Rightarrow> http_outcome) \<Rightarrow> int \<Rightarrow> json \<Rightarrow> ValshiXWebSocket
     \<Rightarrow> (error + unit) \<times> ValshiXWebSocket" where
  "handle_trade_try order http whale_threshold trade_data b =
     (case trade_data of
        JObj d \<Rightarrow>
          (let tid = dict_get d (ascii ''trade_id'') (JStr []) in
           if \<not> hashable tid then (Inl TypeError, b)
           else if tid \<in> ws_seen_trade_ids b then (Inr (), b)
           else
             (let b1 = b\<lparr>ws_seen_trade_ids := insert tid (ws_seen_trade_ids b)\<rparr> in
              case Trade_init trade_data of
                Inl e \<Rightarrow> (Inl e, b1)
              | Inr trade \<Rightarrow>
                  (case py_upper (side trade) of
                     Inl e \<Rightarrow> (Inl e, b1)
                   | Inr sd \<Rightarrow>
                       (let b2 = emit TradeLogged b1;
                            r = (if is_whale trade whale_threshold then
                                   (let b3 = emit WhaleDetected b2 in
                                    case get_market_details http (ticker trade)
                                           (ws_market_cache b3, ws_requests b3) of
                                      (Inl e, cache, n) \<Rightarrow>
                                        (Inl e, b3\<lparr>ws_market_cache := cache, ws_requests := n\<rparr>)
                                    | (Inr market, cache, n) \<Rightarrow>
                                        (let b4 = b3\<lparr>ws_market_cache := cache, ws_requests := n\<rparr>
                                         in if truthy market
                                            then (Inr (), post_whale_trade trade market b4)
                                            else (Inr (), emit MarketMissing b4)))
                                 else (Inr (), b2))
                        in case r of
                             (Inl e, b5) \<Rightarrow> (Inl e, b5)
                           | (Inr u, b5) \<Rightarrow>
                               (Inr (),
                                b5\<lparr>ws_seen_trade_ids :=
                                     compact_seen order (ws_seen_trade_ids b5)\<rparr>)))))
      | _ \<Rightarrow> (Inl AttributeError, b))"

text \<open>\<open>handle_trade\<close>: the \<open>except\<close> clause logs the error and the call returns.\<close>

definition handle_trade ::
  "(json set \<Rightarrow> json list) \<Rightarrow> (nat \<Rightarrow> http_outcome) \<Rightarrow> int \<Rightarrow> json \<Rightarrow> ValshiXWebSocket
     \<Rightarrow> ValshiXWebSocket" where
  "handle_trade order http whale_threshold trade_data b =
     (case handle_trade_try order http whale_threshold trade_data b of
        (Inl e, b') \<Rightarrow> emit (HandlerError e) b'
      | (Inr u, b') \<Rightarrow> b')"

section \<open>Example records\<close>


definition fed_trade :: Trade where
  "fed_trade =
     \<lparr>trade_id = JStr [], ticker = JStr (ascii ''FED-24DEC''), side = JStr (ascii ''yes''),
      count = JInt 2000, yes_price = JInt 75, no_price = JInt 0, created_time = JStr [],
      value_cents = 150000, value_dollars = 1500\<rparr>"


definition epoch_iso :: "json \<Rightarrow> error + json" where
  "epoch_iso ts = Inr (JStr (ascii ''1970-01-01T00:00:00Z''))"



text \<open>
  Integer trade ids \<open>a, \<dots>, b - 1\<close>, and the listing of a set of integer ids in
  ascending order, which is how CPython lists a set of small integers.
\<close>

definition ids :: "nat \<Rightarrow> nat \<Rightarrow> json set" where
  "ids a b = (\<lambda>n. JInt (int n)) ` {a..<b}"

definition ascending :: "json set \<Rightarrow> json list" where
  "ascending S = map (\<lambda>n. JInt (int n)) (sorted_list_of_set {n. JInt (int n) \<in> S})"






text \<open>A trade frame that carries a trade id and nothing else.\<close>

definition partial_frame :: json where
  "partial_frame =
     JObj [(ascii ''type'', JStr (ascii ''trade'')),
           (ascii ''msg'', JObj [(ascii ''trade_id'', JStr (ascii ''t-2''))])]"

definition partial_normalized :: json where
  "partial_normalized =
     JObj [(ascii ''trade_id'', JStr (ascii ''t-2'')),
           (ascii ''ticker'', JNull),
           (ascii ''taker_side'', JNull),
           (ascii ''count'', JNull),
           (ascii ''yes_price'', JNull),
           (ascii ''no_price'', JNull),
           (ascii ''created_time'', JStr (ascii ''1970-01-01T00:00:00Z''))]"

definition bot_with :: "json set \<Rightarrow> ValshiXWebSocket" where
  "bot_with S =
     \<lparr>ws_seen_trade_ids = S, ws_market_cache = Map.empty, ws_requests = 0, events = []\<rparr>"




section \<open>The value of a trade\<close>





section \<open>The whale test\<close>

text \<open>
  Claim C2. \<open>is_whale\<close> holds exactly when \<open>value_dollars\<close> is at least the
  threshold: a trade worth the threshold is a whale, a trade worth one cent less is
  not; a whale at a threshold is a whale at every lower one, and a trade worth at least
  as much as a whale is a whale.
\<close>

theorem is_whale_inclusive_monotone:
  "(is_whale t th \<longleftrightarrow> of_int th \<le> value_dollars t)
   \<and> (value_dollars t = of_int th \<longrightarrow> is_whale t th)
   \<and> (value_dollars t = of_int th - 1 / 100 \<longrightarrow> \<not> is_whale t th)
   \<and> (th1 \<le> th2 \<and> is_whale t th2 \<longrightarrow> is_whale t th1)
   \<and> (value_dollars t \<le> value_dollars t' \<and> is_whale t th \<longrightarrow> is_whale t' th)"
  by (auto simp: is_whale_def intro: order_trans [where y = "of_int th2 :: rat"])

theorem is_whale_inclusive_monotone_witness:
  "is_whale (fed_trade\<lparr>value_dollars := 100000\<rparr>) 100000
   \<and> \<not> is_whale (fed_trade\<lparr>value_dollars := 100000 - 1 / 100\<rparr>) 100000
   \<and> is_whale (fed_trade\<lparr>value_dollars := 100000\<rparr>) 1500
   \<and> is_whale (fed_trade\<lparr>value_dollars := 100001\<rparr>) 100000"
proof -
  let ?t = "fed_trade\<lparr>value_dollars := 100000\<rparr>"
  have a: "is_whale ?t 100000"
    using is_whale_inclusive_monotone [of ?t 100000] by simp
  have b: "\<not> is_whale (fed_trade\<lparr>value_dollars := 100000 - 1 / 100\<rparr>) 100000"
    using is_whale_inclusive_monotone [of "fed_trade\<lparr>value_dollars := 100000 - 1 / 100\<rparr>" 100000]
    by simp
  have c: "is_whale ?t 1500"
    using is_whale_inclusive_monotone [of ?t 100000 1500 100000] a by simp
  have d: "is_whale (fed_trade\<lparr>value_dollars := 100001\<rparr>) 100000"
    using is_whale_inclusive_monotone [of ?t 100000 0 0 "fed_trade\<lparr>value_dollars := 100001\<rparr>"] a
    by simp
  from a b c d show ?thesis by blast
qed

section \<open>The publisher's limit\<close>

text \<open>
  Claim C10. \<open>post_tweet\<close> never transmits more than 280 characters: a text of at
  most 280 characters is sent as it is, a longer one is cut to its first 277 characters
  followed by three dots, 280 characters in all.
\<close>

theorem post_tweet_bounded:
  "length (fst (post_tweet out text)) \<le> 280
   \<and> (length text \<le> 280 \<longrightarrow> fst (post_tweet out text) = text)
   \<and> (280 < length text \<longrightarrow>
        fst (post_tweet out text) = take 277 text @ ascii ''...''
        \<and> length (fst (post_tweet out text)) = 280)"
  by (auto simp: post_tweet_def post_tweet_text_def ascii_def)

theorem post_tweet_bounded_witness:
  "fst (post_tweet NoData (ascii ''whale'')) = ascii ''whale''
   \<and> fst (post_tweet NoData (replicate 300 65)) = replicate 277 65 @ ascii ''...''
   \<and> length (fst (post_tweet NoData (replicate 300 65))) = 280"
  using post_tweet_bounded [of NoData "ascii ''whale''"]
    post_tweet_bounded [of NoData "replicate 300 65"]
  by (simp add: ascii_def)

section \<open>Reconnection backoff\<close>

lemma listen_step_fail:
  assumes "running c" "\<not> websocket c" "fst ev = ConnectFails"
  shows "listen_step ev c =
           c\<lparr>slept := slept c @ [reconnect_delay c],
             reconnect_delay := min (reconnect_delay c * 2) (max_reconnect_delay c)\<rparr>"
  using assms by (simp add: listen_step_def)

lemma backoff_arith: "min (min (d * 2) 60 * 2 ^ n) (60::int) = min (d * 2 ^ Suc n) 60"
proof (cases "d * 2 \<le> 60")
  case True
  then show ?thesis by (simp add: min_absorb1 mult.assoc)
next
  case False
  have p: "(1::int) \<le> 2 ^ n" by simp
  have l: "min (d * 2) 60 = (60::int)" using False by simp
  have a: "(60::int) \<le> 60 * 2 ^ n"
    using mult_left_mono [OF p, of 60] by simp
  have d: "0 \<le> d" using False by simp
  have "d * 1 \<le> d * 2 ^ n" by (rule mult_left_mono [OF p d])
  with False have "60 \<le> 2 * (d * 2 ^ n)" by linarith
  then have b: "60 \<le> d * 2 ^ Suc n" by (simp only: power_Suc mult.left_commute)
  show ?thesis unfolding l using a b by (simp add: min_absorb2)
qed

lemma fold_listen_step_fails:
  assumes "running c" "\<not> websocket c" "max_reconnect_delay c = 60"
    "\<forall>ev \<in> set evs. fst ev = ConnectFails" "reconnect_delay c \<le> 60"
  shows "reconnect_delay (fold listen_step evs c) = min (reconnect_delay c * 2 ^ length evs) 60
         \<and> \<not> websocket (fold listen_step evs c)"
  using assms
proof (induction evs arbitrary: c)
  case Nil
  then show ?case by simp
next
  case (Cons ev evs)
  let ?c = "listen_step ev c"
  from Cons.prems have s: "?c = c\<lparr>slept := slept c @ [reconnect_delay c],
             reconnect_delay := min (reconnect_delay c * 2) (max_reconnect_delay c)\<rparr>"
    by (intro listen_step_fail) auto
  have "reconnect_delay (fold listen_step evs ?c) = min (reconnect_delay ?c * 2 ^ length evs) 60
         \<and> \<not> websocket (fold listen_step evs ?c)"
    using Cons.prems by (intro Cons.IH) (auto simp: s)
  then show ?case using Cons.prems(3) by (simp add: s backoff_arith)
qed

lemma receive_reconnect_delay: "reconnect_delay (receive r c) = reconnect_delay c"
  by (cases r) auto

lemma receive_running: "running (receive r c) = running c"
  by (cases r) auto

lemma listen_step_running: "running (listen_step ev c) = running c"
  by (cases "fst ev") (auto simp: listen_step_def receive_running)

lemma fold_listen_step_running: "running (fold listen_step evs c) = running c"
  by (induction evs arbitrary: c) (auto simp: listen_step_running)

lemma listen_step_opens:
  "running c \<Longrightarrow> \<not> websocket c \<Longrightarrow> reconnect_delay (listen_step (ConnectOpens, r) c) = 1"
  by (simp add: listen_step_def receive_reconnect_delay)

text \<open>
  Claim C7. The reconnect delay starts at 1. Along a run of \<open>listen\<close> in which every
  iteration is a failed connect attempt, the stored delay after \<open>N\<close> iterations is
  \<open>min (2 ^ N) 60\<close>; a connect that succeeds, at once or after such a run, sets it
  to 1.
\<close>

theorem reconnect_backoff:
  "reconnect_delay KalshiWebSocketClient_init = 1
   \<and> (\<not> websocket c \<and> reconnect_delay c = 1 \<and> max_reconnect_delay c = 60
        \<and> (\<forall>ev \<in> set evs. fst ev = ConnectFails)
      \<longrightarrow> reconnect_delay (listen evs c) = min (2 ^ length evs) 60
          \<and> reconnect_delay (listen (evs @ [(ConnectOpens, r)]) c) = 1)
   \<and> reconnect_delay (snd (connect ConnectOpens c)) = 1"
proof (intro conjI impI)
  show "reconnect_delay KalshiWebSocketClient_init = 1"
    by (simp add: KalshiWebSocketClient_init_def)
  show "reconnect_delay (snd (connect ConnectOpens c)) = 1" by simp
next
  assume h: "\<not> websocket c \<and> reconnect_delay c = 1 \<and> max_reconnect_delay c = 60
        \<and> (\<forall>ev \<in> set evs. fst ev = ConnectFails)"
  let ?c = "c\<lparr>running := True\<rparr>"
  have f: "reconnect_delay (fold listen_step evs ?c) = min (reconnect_delay ?c * 2 ^ length evs) 60
         \<and> \<not> websocket (fold listen_step evs ?c)"
    using h by (intro fold_listen_step_fails) auto
  then show "reconnect_delay (listen evs c) = min (2 ^ length evs) 60"
    using h by (simp add: listen_def)
  have "running (fold listen_step evs ?c)" by (simp add: fold_listen_step_running)
  with f show "reconnect_delay (listen (evs @ [(ConnectOpens, r)]) c) = 1"
    by (simp add: listen_def listen_step_opens)
qed

theorem reconnect_backoff_witness:
  "reconnect_delay (listen (replicate 3 (ConnectFails, Handled)) KalshiWebSocketClient_init) = 8
   \<and> reconnect_delay (listen (replicate 7 (ConnectFails, Handled)) KalshiWebSocketClient_init) = 60
   \<and> reconnect_delay
        (listen (replicate 7 (ConnectFails, Handled) @ [(ConnectOpens, Handled)])
           KalshiWebSocketClient_init) = 1"
  using reconnect_backoff [of KalshiWebSocketClient_init "replicate 3 (ConnectFails, Handled)"]
    reconnect_backoff [of KalshiWebSocketClient_init "replicate 7 (ConnectFails, Handled)" Handled]
  by (simp add: KalshiWebSocketClient_init_def)

section \<open>Formatting amounts\<close>







section \<open>The read-only endpoints\<close>

lemma request_failure_gives_None:
  assumes "make_request out = JNull"
  shows "get_markets out = Inr JNull \<and> get_market out = Inr JNull
         \<and> get_trades out = Inr JNull \<and> get_orderbook out = Inr JNull"
  using assms by (simp add: get_markets_def get_market_def get_trades_def get_orderbook_def)

lemma make_request_failure:
  "make_request TransportError = JNull"
  "status \<noteq> 200 \<Longrightarrow> make_request (Response status body) = JNull"
  "make_request (Response status None) = JNull"
  by simp_all

lemma success_gives_list:
  assumes "make_request out = JObj d" "d \<noteq> []"
  shows "get_markets out = Inr (dict_get d (ascii ''markets'') (JList []))
         \<and> get_trades out = Inr (dict_get d (ascii ''trades'') (JList []))"
  using assms by (simp add: get_markets_def get_trades_def result_get_def)

text \<open>
  Claim C8 at the response 200 with the empty object as body: the request succeeds, the
  key is absent, and \<open>get_markets\<close> and \<open>get_trades\<close> return \<open>None\<close>, not the empty
  list.
\<close>

theorem empty_object_gives_None:
  "make_request (Response 200 (Some (JObj []))) = JObj []
   \<and> map_of [] (ascii ''markets'') = (None :: json option)
   \<and> get_markets (Response 200 (Some (JObj []))) = Inr JNull
   \<and> get_trades (Response 200 (Some (JObj []))) = Inr JNull"
  by (simp add: get_markets_def get_trades_def)

section \<open>Trades of the streaming feed\<close>





section \<open>Deduplication and the seen set\<close>

lemma whale_loop_seen:
  "whale_loop http ts acc m = (Inr ws, m') \<Longrightarrow>
     seen_trade_ids m' = seen_trade_ids m \<union> trade_id ` set ts
     \<and> (\<exists>new. ws = acc @ new
           \<and> (\<forall>x \<in> set new. fst x \<in> set ts \<and> trade_id (fst x) \<notin> seen_trade_ids m)
           \<and> distinct (map (\<lambda>x. trade_id (fst x)) new))"
proof (induction ts arbitrary: acc m)
  case Nil
  then show ?case by simp
next
  case (Cons t ts)
  let ?tid = "trade_id t"
  from Cons.prems have hash: "hashable ?tid" by (auto split: if_splits)
  show ?case
  proof (cases "?tid \<in> seen_trade_ids m")
    case True
    with Cons.prems hash have "whale_loop http ts acc m = (Inr ws, m')" by simp
    from Cons.IH [OF this] True show ?thesis by auto
  next
    case False
    have "\<exists>acc' m1. whale_loop http ts acc' m1 = (Inr ws, m')
            \<and> seen_trade_ids m1 = insert ?tid (seen_trade_ids m)
            \<and> (acc' = acc \<or> (\<exists>mk. acc' = acc @ [(t, mk)]))"
      using Cons.prems hash False
      by (fastforce simp: Let_def split: if_splits prod.splits sum.splits)
    then obtain acc' m1 where rec: "whale_loop http ts acc' m1 = (Inr ws, m')"
      and s: "seen_trade_ids m1 = insert ?tid (seen_trade_ids m)"
      and a: "acc' = acc \<or> (\<exists>mk. acc' = acc @ [(t, mk)])"
      by blast
    from Cons.IH [OF rec] obtain new where
      n: "seen_trade_ids m' = seen_trade_ids m1 \<union> trade_id ` set ts" "ws = acc' @ new"
        "\<forall>x \<in> set new. fst x \<in> set ts \<and> trade_id (fst x) \<notin> seen_trade_ids m1"
        "distinct (map (\<lambda>x. trade_id (fst x)) new)"
      by blast
    have seen: "seen_trade_ids m' = seen_trade_ids m \<union> trade_id ` set (t # ts)"
      using n(1) s by auto
    from a show ?thesis
    proof
      assume "acc' = acc"
      with n s seen show ?thesis by auto
    next
      assume "\<exists>mk. acc' = acc @ [(t, mk)]"
      then obtain mk where mk: "acc' = acc @ [(t, mk)]" by blast
      have "ws = acc @ ((t, mk) # new)" using n(2) mk by simp
      moreover have "\<forall>x \<in> set ((t, mk) # new).
          fst x \<in> set (t # ts) \<and> trade_id (fst x) \<notin> seen_trade_ids m"
        using n(3) s False by auto
      moreover have "distinct (map (\<lambda>x. trade_id (fst x)) ((t, mk) # new))"
        using n(3,4) s by force
      ultimately show ?thesis using seen by blast
    qed
  qed
qed

lemma fetch_recent_trades_seen:
  "fetch_recent_trades http m = (r, m1) \<Longrightarrow> seen_trade_ids m1 = seen_trade_ids m"
  by (auto simp: fetch_recent_trades_def Let_def split: sum.splits if_splits json.splits)

lemma compact_seen_subset:
  "set (order S) = S \<Longrightarrow> compact_seen order S \<subseteq> S"
  by (auto simp: compact_seen_def Let_def dest: in_set_dropD)

lemma compact_seen_small: "card S \<le> 10000 \<Longrightarrow> compact_seen order S = S"
  by (simp add: compact_seen_def)

lemma compact_seen_card:
  assumes "set (order S) = S" "distinct (order S)" "10000 < card S"
  shows "card (compact_seen order S) = 5000"
proof -
  have len: "length (order S) = card S"
    using assms(1,2) distinct_card by fastforce
  have "distinct (drop (length (order S) - 5000) (order S))"
    using assms(2) by simp
  then have "card (set (drop (length (order S) - 5000) (order S)))
               = length (drop (length (order S) - 5000) (order S))"
    by (rule distinct_card)
  with len assms(3) show ?thesis by (simp add: compact_seen_def Let_def)
qed

lemma compact_seen_bounded:
  assumes "set (order S) = S" "distinct (order S)"
  shows "card (compact_seen order S) \<le> 10000"
proof (cases "10000 < card S")
  case True
  with compact_seen_card [of order S] assms show ?thesis by simp
next
  case False
  then show ?thesis by (simp add: compact_seen_def)
qed

lemma find_new_whale_trades_result:
  assumes "find_new_whale_trades order http m = (Inr ws, m')"
  shows "\<exists>trades m1 m2. fetch_recent_trades http m = (Inr trades, m1)
           \<and> whale_loop http trades [] m1 = (Inr ws, m2)
           \<and> seen_trade_ids m' = compact_seen order (seen_trade_ids m \<union> trade_id ` set trades)
           \<and> (\<forall>x \<in> set ws. fst x \<in> set trades \<and> trade_id (fst x) \<notin> seen_trade_ids m)
           \<and> distinct (map (\<lambda>x. trade_id (fst x)) ws)"
proof -
  from assms obtain trades m1 m2 where
    f: "fetch_recent_trades http m = (Inr trades, m1)"
    and w: "whale_loop http trades [] m1 = (Inr ws, m2)"
    and m': "m' = m2\<lparr>seen_trade_ids := compact_seen order (seen_trade_ids m2)\<rparr>"
    by (auto simp: find_new_whale_trades_def split: prod.splits sum.splits)
  from whale_loop_seen [OF w] fetch_recent_trades_seen [OF f] m' f w
  show ?thesis by auto
qed

lemma ids_mem: "JInt i \<in> ids a b \<longleftrightarrow> 0 \<le> i \<and> a \<le> nat i \<and> nat i < b"
  by (auto simp: ids_def image_iff intro: bexI [where x = "nat i"])

lemma ids_str: "JStr s \<notin> ids a b"
  by (auto simp: ids_def)

lemma finite_ids: "finite (ids a b)"
  by (simp add: ids_def)

lemma card_ids: "card (ids a b) = b - a"
  by (simp add: ids_def card_image inj_on_def)


lemma ascending_ids: "ascending (ids a b) = map (\<lambda>n. JInt (int n)) [a..<b]"
proof -
  have "{n. JInt (int n) \<in> ids a b} = {a..<b}" by (auto simp: ids_mem)
  then show ?thesis by (simp add: ascending_def)
qed

lemma ascending_ids_enumerates:
  "set (ascending (ids a b)) = ids a b \<and> distinct (ascending (ids a b))"
  unfolding ascending_ids by (simp add: ids_def distinct_map inj_on_def)

lemma set_map_ids: "set (map (\<lambda>n. JInt (int n)) [a..<b]) = ids a b"
  by (simp add: ids_def)







lemma compact_after: "compact_seen ascending (insert (JInt 0) (ids 5001 10001)) = insert (JInt 0) (ids 5001 10001)"
  by (rule compact_seen_small) (simp add: card_insert_if finite_ids card_ids ids_mem)

lemma get_market_details_total:
  "\<exists>r cache' n'. get_market_details http tk (cache, n) = (r, cache', n')"
  by (cases "get_market_details http tk (cache, n)") auto

lemma post_whale_trade_seen:
  "ws_seen_trade_ids (post_whale_trade trade market b) = ws_seen_trade_ids b"
  by (simp add: post_whale_trade_def emit_def split: sum.splits)










section \<open>The bound on the seen set\<close>

text \<open>
  A polling cycle that returns leaves at most 10,000 ids, whatever the order in which
  the set is listed. A call of \<open>handle_trade\<close> whose body returns has compacted the
  set after the insertion; one whose body raises after the insertion has not.
\<close>

lemma find_new_whale_trades_bounded:
  assumes "find_new_whale_trades order http m = (Inr ws, m')"
    and en: "\<And>S. finite S \<Longrightarrow> set (order S) = S \<and> distinct (order S)"
    and "finite (seen_trade_ids m)"
  shows "card (seen_trade_ids m') \<le> 10000"
proof -
  from find_new_whale_trades_result [OF assms(1)] obtain trades :: "Trade list" where
    s: "seen_trade_ids m' = compact_seen order (seen_trade_ids m \<union> trade_id ` set trades)"
    by blast
  define S where "S = seen_trade_ids m \<union> trade_id ` set trades"
  have "finite S" using assms(3) by (simp add: S_def)
  from en [OF this] have "card (compact_seen order S) \<le> 10000"
    using compact_seen_bounded [of order S] by simp
  then show ?thesis by (simp add: s S_def)
qed

lemma handle_trade_try_returns:
  assumes "hashable (dict_get d (ascii ''trade_id'') (JStr []))"
    "dict_get d (ascii ''trade_id'') (JStr []) \<notin> ws_seen_trade_ids b"
    "handle_trade_try order http th (JObj d) b = (Inr u, b')"
  shows "ws_seen_trade_ids b' =
           compact_seen order (insert (dict_get d (ascii ''trade_id'') (JStr [])) (ws_seen_trade_ids b))"
  using assms
  by (auto simp: handle_trade_try_def Let_def emit_def post_whale_trade_seen
      split: sum.splits prod.splits if_splits)

lemma handle_trade_try_raises:
  assumes "hashable (dict_get d (ascii ''trade_id'') (JStr []))"
    "dict_get d (ascii ''trade_id'') (JStr []) \<notin> ws_seen_trade_ids b"
    "handle_trade_try order http th (JObj d) b = (Inl e, b')"
  shows "ws_seen_trade_ids b' =
           insert (dict_get d (ascii ''trade_id'') (JStr [])) (ws_seen_trade_ids b)"
  using assms
  by (auto simp: handle_trade_try_def Let_def emit_def post_whale_trade_seen
      split: sum.splits prod.splits if_splits)

lemma Trade_init_partial: "Trade_init partial_normalized = Inl TypeError"
  by (simp add: Trade_init_def partial_normalized_def dict_get_def ascii_def)

text \<open>
  Claim C6 at a trade frame without \<open>count\<close>, with 10,000 ids seen: the normalizer
  passes \<open>None\<close> for the missing fields, \<open>Trade\<close> raises \<open>TypeError\<close> after the id was
  inserted, the \<open>except\<close> clause logs it, and \<open>handle_trade\<close> returns with 10,001
  ids in the seen set.
\<close>

theorem failed_handler_skips_compaction:
  "handle_message epoch_iso partial_frame = Inr (Some partial_normalized)
   \<and> card (ws_seen_trade_ids (bot_with (ids 0 10000))) = 10000
   \<and> handle_trade order http th partial_normalized (bot_with (ids 0 10000))
       = (bot_with (insert (JStr (ascii ''t-2'')) (ids 0 10000)))
           \<lparr>events := [HandlerError TypeError]\<rparr>
   \<and> card (ws_seen_trade_ids
        (handle_trade order http th partial_normalized (bot_with (ids 0 10000)))) = 10001"
proof -
  have a: "handle_message epoch_iso partial_frame = Inr (Some partial_normalized)"
    by (simp add: handle_message_def normalize_trade_def partial_frame_def epoch_iso_def
        partial_normalized_def dict_get_def ascii_def)
  have b: "card (ws_seen_trade_ids (bot_with (ids 0 10000))) = 10000"
    by (simp add: bot_with_def card_ids)
  have t: "dict_get
             [(ascii ''trade_id'', JStr (ascii ''t-2'')), (ascii ''ticker'', JNull),
              (ascii ''taker_side'', JNull), (ascii ''count'', JNull),
              (ascii ''yes_price'', JNull), (ascii ''no_price'', JNull),
              (ascii ''created_time'', JStr (ascii ''1970-01-01T00:00:00Z''))]
             (ascii ''trade_id'') (JStr []) = JStr (ascii ''t-2'')"
    by (simp add: dict_get_def ascii_def)
  have "handle_trade_try order http th partial_normalized (bot_with (ids 0 10000))
          = (Inl TypeError, bot_with (insert (JStr (ascii ''t-2'')) (ids 0 10000)))"
    using Trade_init_partial
    by (simp add: handle_trade_try_def partial_normalized_def t ids_str bot_with_def)
  then have c: "handle_trade order http th partial_normalized (bot_with (ids 0 10000))
       = (bot_with (insert (JStr (ascii ''t-2'')) (ids 0 10000)))
           \<lparr>events := [HandlerError TypeError]\<rparr>"
    by (simp add: handle_trade_def emit_def bot_with_def)
  have d: "card (insert (JStr (ascii ''t-2'')) (ids 0 10000)) = 10001"
    by (simp add: card_insert_if finite_ids ids_str card_ids)
  show ?thesis unfolding c using a b d by (simp add: bot_with_def)
qed

section \<open>The length of a whale tweet\<close>










lemma length_py_upper:
  "py_upper (JStr s) = Inr u \<Longrightarrow> length u = length s"
  by (cases "\<forall>c \<in> set s. c < 128") auto












end
